theory Spec2Isabelle
  imports Complex_Main "HOL-Library.Monad_Syntax"
begin

section \<open>Numbers\<close>

text \<open>
  The program computes with Go's \<^verbatim>\<open>float64\<close>. Transforms, \<open>offsetPolygon\<close> and
  \<open>writeGcode\<close> are read over the real numbers: addition, multiplication and division
  are exact, there is no rounding, no overflow and no NaN, and the statements about them
  are statements about this exact-arithmetic reading of the code. The curve flattener
  takes the rounding as a parameter, so that it can be read both ways. Slice indices and
  lengths (Go \<^verbatim>\<open>int\<close>) are natural numbers; every index expression of the source that
  could be negative as a natural number is written so that it is not.
\<close>

section \<open>geometry.go\<close>

record Point =
  X :: real
  Y :: real

record Transform =
  A :: real
  B :: real
  C :: real
  D :: real
  E :: real
  F :: real

definition identityTransform :: "Transform" where
  "identityTransform = \<lparr>A = 1, B = 0, C = 0, D = 1, E = 0, F = 0\<rparr>"

text \<open>\<^verbatim>\<open>func (t Transform) Mul(u Transform) Transform\<close>\<close>

definition Mul :: "Transform \<Rightarrow> Transform \<Rightarrow> Transform" where
  "Mul t u =
     \<lparr>A = A t * A u + C t * B u,
      B = B t * A u + D t * B u,
      C = A t * C u + C t * D u,
      D = B t * C u + D t * D u,
      E = A t * E u + C t * F u + E t,
      F = B t * E u + D t * F u + F t\<rparr>"

text \<open>\<^verbatim>\<open>func (t Transform) Apply(p Point) Point\<close>\<close>

definition Apply :: "Transform \<Rightarrow> Point \<Rightarrow> Point" where
  "Apply t p =
     \<lparr>X = A t * X p + C t * Y p + E t,
      Y = B t * X p + D t * Y p + F t\<rparr>"

text \<open>
  Rounding. The curve flattener is modelled with the rounding of \<^verbatim>\<open>float64\<close> as a
  parameter \<open>rnd\<close>: every arithmetic operation of \<open>lerp\<close>, \<open>mathHypot\<close>,
  \<open>distPointToLine\<close> and \<open>flattenCubicBezier\<close> is the exact operation followed by
  \<open>rnd\<close> (one rounding per operation, no fused multiply-add; negation, absolute value
  and comparisons do not round). \<open>exact\<close> does not round at all. \<open>binary64\<close> rounds to
  the nearest number with 53 significant bits, ties to the even significand, with the
  fixed spacing \<open>2 ^ - 1074\<close> below \<open>2 ^ - 1022\<close>; overflow to an infinity and NaN are
  not modelled.
\<close>

definition exact :: "real \<Rightarrow> real" where
  "exact x = x"

definition roundEven :: "real \<Rightarrow> int" where
  "roundEven q =
     (let f = \<lfloor>q\<rfloor>;
          d = q - of_int f
      in if d < 1 / 2 then f
         else if 1 / 2 < d then f + 1
         else if even f then f else f + 1)"

definition binary64 :: "real \<Rightarrow> real" where
  "binary64 x =
     (if x = 0 then 0
      else
        let e = max \<lfloor>log 2 \<bar>x\<bar>\<rfloor> (- 1022);
            ulp = 2 powr (of_int e - 52)
        in of_int (roundEven (x / ulp)) * ulp)"

definition lerp :: "(real \<Rightarrow> real) \<Rightarrow> Point \<Rightarrow> Point \<Rightarrow> real \<Rightarrow> Point" where
  "lerp rnd a b t =
     \<lparr>X = rnd (X a + rnd (rnd (X b - X a) * t)),
      Y = rnd (Y a + rnd (rnd (Y b - Y a) * t))\<rparr>"

text \<open>
  \<^verbatim>\<open>math.Hypot\<close> as the Go library computes it (\<^verbatim>\<open>hypot.go\<close>, the cases for
  infinities and NaN left out): the larger absolute value times
  \<^verbatim>\<open>Sqrt(1 + q*q)\<close> for the quotient \<^verbatim>\<open>q\<close> of the smaller by the larger.
  \<open>Hypot\<close> is its value when nothing is rounded, the Euclidean length of \<open>(p, q)\<close>.
\<close>

definition mathHypot :: "(real \<Rightarrow> real) \<Rightarrow> real \<Rightarrow> real \<Rightarrow> real" where
  "mathHypot rnd p q =
     (let hi = (if \<bar>p\<bar> < \<bar>q\<bar> then \<bar>q\<bar> else \<bar>p\<bar>);
          lo = (if \<bar>p\<bar> < \<bar>q\<bar> then \<bar>p\<bar> else \<bar>q\<bar>)
      in if hi = 0 then 0
         else
           let r = rnd (lo / hi)
           in rnd (hi * rnd (sqrt (rnd (1 + rnd (r * r))))))"

definition Hypot :: "real \<Rightarrow> real \<Rightarrow> real" where
  "Hypot p q = sqrt (p * p + q * q)"

definition distPointToLine :: "(real \<Rightarrow> real) \<Rightarrow> Point \<Rightarrow> Point \<Rightarrow> Point \<Rightarrow> real" where
  "distPointToLine rnd p a b =
     (let dx = rnd (X b - X a);
          dy = rnd (Y b - Y a)
      in if dx = 0 \<and> dy = 0 then mathHypot rnd (rnd (X p - X a)) (rnd (Y p - Y a))
         else
           let t = rnd (rnd (rnd (rnd (X p - X a) * dx) + rnd (rnd (Y p - Y a) * dy))
                        / rnd (rnd (dx * dx) + rnd (dy * dy)));
               px = rnd (X a + rnd (t * dx));
               py = rnd (Y a + rnd (t * dy))
           in mathHypot rnd (rnd (X p - px)) (rnd (Y p - py)))"

text \<open>
  \<^verbatim>\<open>flattenCubicBezier\<close> recurses with no depth bound, so it is a partial function:
  \<open>None\<close> is "the call never returns". The output slice \<^verbatim>\<open>*out\<close> is threaded
  through the two recursive calls, first half before second half.
\<close>

partial_function (option) flattenCubicBezier ::
  "(real \<Rightarrow> real) \<Rightarrow> Point \<Rightarrow> Point \<Rightarrow> Point \<Rightarrow> Point \<Rightarrow> real \<Rightarrow> Point list
     \<Rightarrow> Point list option" where
  "flattenCubicBezier rnd p0 p1 p2 p3 flatness out =
     (let d1 = distPointToLine rnd p1 p0 p3;
          d2 = distPointToLine rnd p2 p0 p3
      in if d1 \<le> flatness \<and> d2 \<le> flatness then Some (out @ [p3])
         else
           let m01 = lerp rnd p0 p1 0.5;
               m12 = lerp rnd p1 p2 0.5;
               m23 = lerp rnd p2 p3 0.5;
               m012 = lerp rnd m01 m12 0.5;
               m123 = lerp rnd m12 m23 0.5;
               m0123 = lerp rnd m012 m123 0.5
           in do {
                out1 \<leftarrow> flattenCubicBezier rnd p0 m01 m012 m0123 flatness out;
                flattenCubicBezier rnd m0123 m123 m23 p3 flatness out1
              })"

definition cross :: "Point \<Rightarrow> Point \<Rightarrow> real" where
  "cross a b = X a * Y b - Y a * X b"

text \<open>The constant \<^verbatim>\<open>1e-9\<close> of \<^verbatim>\<open>almostEqualPoint\<close> and \<^verbatim>\<open>offsetPolygon\<close>.\<close>

definition epsilon :: real where
  "epsilon = 1 / 10 ^ 9"

definition almostEqualPoint :: "Point \<Rightarrow> Point \<Rightarrow> bool" where
  "almostEqualPoint a b \<longleftrightarrow> \<bar>X a - X b\<bar> < epsilon \<and> \<bar>Y a - Y b\<bar> < epsilon"

section \<open>svg2gcode.go: tokenizer\<close>

text \<open>
  A Go string is read here as the list of its runes, each rune below U+0100 being one
  \<open>char\<close>; the model covers path data in that range (all of ASCII).
  \<open>isSpace\<close> is \<^verbatim>\<open>unicode.IsSpace\<close> on that range, and \<open>Fields\<close> is
  \<^verbatim>\<open>strings.Fields\<close>: the maximal runs of non-space runes, in order.
\<close>

definition isSpace :: "char \<Rightarrow> bool" where
  "isSpace r \<longleftrightarrow>
     r \<in> set [CHR 0x09, CHR 0x0A, CHR 0x0B, CHR 0x0C, CHR 0x0D, CHR '' '', CHR 0x85, CHR 0xA0]"

fun fieldsFrom :: "string \<Rightarrow> string \<Rightarrow> string list" where
  "fieldsFrom cur [] = (if cur = [] then [] else [cur])"
| "fieldsFrom cur (r # rs) =
     (if isSpace r then (if cur = [] then fieldsFrom [] rs else cur # fieldsFrom [] rs)
      else fieldsFrom (cur @ [r]) rs)"

definition Fields :: "string \<Rightarrow> string list" where
  "Fields s = fieldsFrom [] s"

text \<open>\<^verbatim>\<open>func isCommand(tok string) bool\<close>\<close>

definition isCommand :: "string \<Rightarrow> bool" where
  "isCommand tok \<longleftrightarrow>
     (if length tok \<noteq> 1 then False else hd tok \<in> set ''CcMmLlHhVvZz'')"

text \<open>
  \<^verbatim>\<open>func tokenizePathData(d string) []string\<close>. \<open>writeRune\<close> is one iteration of
  the loop over the runes of \<open>d\<close>, appending to the builder \<open>b\<close>; the string
  \<open>commands\<close> is the local variable of that name.
\<close>

definition commands :: string where
  "commands = ''MmLlHhVvZz''"

definition writeRune :: "string \<Rightarrow> char \<Rightarrow> string" where
  "writeRune b r =
     (if r \<in> set commands then b @ [CHR '' '', r, CHR '' '']
      else if r = CHR '','' then b @ [CHR '' '']
      else b @ [r])"

definition tokenizePathData :: "string \<Rightarrow> string list" where
  "tokenizePathData d = Fields (foldl writeRune [] d)"

section \<open>svg2gcode.go: offsetPolygon\<close>

text \<open>
  Indexing a Go slice out of range panics. \<open>elemAt\<close> is the checked read; in
  \<open>offsetPolygon\<close> and its parts \<open>None\<close> stands for that panic.
\<close>

definition elemAt :: "'a list \<Rightarrow> nat \<Rightarrow> 'a option" where
  "elemAt xs i = (if i < length xs then Some (xs ! i) else None)"

text \<open>
  The loop "Remove duplicate closing point if present": \<open>dropClosing points n0 i ps\<close>
  runs it from index \<open>i\<close> over the remaining elements \<open>ps\<close>; \<^verbatim>\<open>points[0]\<close> is
  read only when \<open>i = n0 - 1\<close>, as the short-circuit conjunction does.
\<close>

fun dropClosing :: "Point list \<Rightarrow> nat \<Rightarrow> nat \<Rightarrow> Point list \<Rightarrow> Point list option" where
  "dropClosing points n0 i [] = Some []"
| "dropClosing points n0 i (p # ps) =
     (if i = n0 - 1 then
        do {
          first \<leftarrow> elemAt points 0;
          if almostEqualPoint p first then Some []
          else do { rest \<leftarrow> dropClosing points n0 (i + 1) ps; Some (p # rest) }
        }
      else do { rest \<leftarrow> dropClosing points n0 (i + 1) ps; Some (p # rest) })"

text \<open>The shoelace loop and the final \<^verbatim>\<open>area *= 0.5\<close>.\<close>

definition areaTerm :: "Point list \<Rightarrow> nat \<Rightarrow> nat \<Rightarrow> real option" where
  "areaTerm poly n i =
     do {
       pa \<leftarrow> elemAt poly i;
       pb \<leftarrow> elemAt poly ((i + 1) mod n);
       Some (X pa * Y pb - X pb * Y pa)
     }"

definition signedArea :: "Point list \<Rightarrow> real option" where
  "signedArea poly =
     do {
       terms \<leftarrow> those (map (areaTerm poly (length poly)) [0..<length poly]);
       Some (foldl (+) 0 terms * 0.5)
     }"

text \<open>
  The body of the loop over the edges, for the edge from \<open>p0\<close> to \<open>p1\<close>:
  \<open>edgeDir\<close> is what is stored in \<^verbatim>\<open>dirs[j]\<close>, \<open>edgeNormal\<close> what is stored in
  \<^verbatim>\<open>norms[j]\<close>. Any mode other than \<^verbatim>\<open>"inside"\<close> takes the outside branch.
\<close>

definition edgeDir :: "Point \<Rightarrow> Point \<Rightarrow> Point" where
  "edgeDir p0 p1 = \<lparr>X = X p1 - X p0, Y = Y p1 - Y p0\<rparr>"

definition edgeNormal :: "Point \<Rightarrow> Point \<Rightarrow> real \<Rightarrow> string \<Rightarrow> Point" where
  "edgeNormal p0 p1 area mode =
     (let ex = X p1 - X p0;
          ey = Y p1 - Y p0;
          length0 = Hypot ex ey;
          len = (if length0 = 0 then 1 else length0);
          nIn = (if area > 0 then \<lparr>X = - ey / len, Y = ex / len\<rparr>
                 else \<lparr>X = ey / len, Y = - ex / len\<rparr>)
      in if mode = ''inside'' then nIn else \<lparr>X = - X nIn, Y = - Y nIn\<rparr>)"

definition offsetEdge :: "Point list \<Rightarrow> nat \<Rightarrow> real \<Rightarrow> string \<Rightarrow> nat \<Rightarrow> (Point \<times> Point) option" where
  "offsetEdge poly n area mode j =
     do {
       p0 \<leftarrow> elemAt poly j;
       p1 \<leftarrow> elemAt poly ((j + 1) mod n);
       Some (edgeDir p0 p1, edgeNormal p0 p1 area mode)
     }"

text \<open>
  The body of the loop over the vertices. \<open>translate p nv delta\<close> is the start point of
  an edge's offset line (\<^verbatim>\<open>q0\<close>, \<^verbatim>\<open>q1\<close>); \<open>joinVertex\<close> is the vertex appended to
  \<^verbatim>\<open>result\<close>. The index \<^verbatim>\<open>(i - 1 + n) % n\<close> is written \<open>(i + n - 1) mod n\<close>.
\<close>

definition translate :: "Point \<Rightarrow> Point \<Rightarrow> real \<Rightarrow> Point" where
  "translate p nv delta = \<lparr>X = X p + X nv * delta, Y = Y p + Y nv * delta\<rparr>"

definition joinVertex :: "Point \<Rightarrow> Point \<Rightarrow> Point \<Rightarrow> Point \<Rightarrow> Point" where
  "joinVertex q0 e0 q1 e1 =
     (let denom = cross e0 e1
      in if \<bar>denom\<bar> < epsilon then q1
         else
           let t = - cross \<lparr>X = X q0 - X q1, Y = Y q0 - Y q1\<rparr> e1 / denom
           in \<lparr>X = X q0 + X e0 * t, Y = Y q0 + Y e0 * t\<rparr>)"

definition offsetVertex ::
  "Point list \<Rightarrow> Point list \<Rightarrow> Point list \<Rightarrow> nat \<Rightarrow> real \<Rightarrow> nat \<Rightarrow> Point option" where
  "offsetVertex poly dirs norms n delta i =
     do {
       let prev = (i + n - 1) mod n;
       let cur = i;
       pPrev \<leftarrow> elemAt poly prev;
       e0 \<leftarrow> elemAt dirs prev;
       n0v \<leftarrow> elemAt norms prev;
       pCur \<leftarrow> elemAt poly cur;
       e1 \<leftarrow> elemAt dirs cur;
       n1v \<leftarrow> elemAt norms cur;
       Some (joinVertex (translate pPrev n0v delta) e0 (translate pCur n1v delta) e1)
     }"

text \<open>\<^verbatim>\<open>func offsetPolygon(points []Point, delta float64, mode string) []Point\<close>\<close>

definition offsetPolygon :: "Point list \<Rightarrow> real \<Rightarrow> string \<Rightarrow> Point list option" where
  "offsetPolygon points delta mode =
     (if delta = 0 \<or> length points < 3 then Some points
      else
        do {
          poly \<leftarrow> dropClosing points (length points) 0 points;
          let n = length poly;
          if n < 3 then Some poly
          else
            do {
              area \<leftarrow> signedArea poly;
              if \<bar>area\<bar> < epsilon then Some poly
              else
                do {
                  edges \<leftarrow> those (map (offsetEdge poly n area mode) [0..<n]);
                  let dirs = map fst edges;
                  let norms = map snd edges;
                  result \<leftarrow> those (map (offsetVertex poly dirs norms n delta) [0..<n]);
                  if length result > 0 then
                    do { r0 \<leftarrow> elemAt result 0; Some (result @ [r0]) }
                  else Some result
                }
            }
        })"

section \<open>Notions used to state the properties of offsetPolygon\<close>

text \<open>
  The normalized input in the words of the specification: the input with a duplicated
  closing point (if present) dropped. It is compared with the loop \<open>dropClosing\<close> of the source.
\<close>

definition normalizeInput :: "Point list \<Rightarrow> Point list" where
  "normalizeInput points =
     (if points \<noteq> [] \<and> almostEqualPoint (last points) (hd points) then butlast points
      else points)"

text \<open>
  For a polygon \<open>poly\<close> and an edge or vertex index below its length: the entries
  \<^verbatim>\<open>dirs[j]\<close> and \<^verbatim>\<open>norms[j]\<close>, and the vertex appended for index \<open>i\<close>.
\<close>

definition polyDir :: "Point list \<Rightarrow> nat \<Rightarrow> Point" where
  "polyDir poly j = edgeDir (poly ! j) (poly ! ((j + 1) mod length poly))"

definition polyNormal :: "Point list \<Rightarrow> real \<Rightarrow> string \<Rightarrow> nat \<Rightarrow> Point" where
  "polyNormal poly area mode j =
     edgeNormal (poly ! j) (poly ! ((j + 1) mod length poly)) area mode"

definition polyVertex :: "Point list \<Rightarrow> real \<Rightarrow> string \<Rightarrow> real \<Rightarrow> nat \<Rightarrow> Point" where
  "polyVertex poly area mode delta i =
     (let prev = (i + length poly - 1) mod length poly
      in joinVertex (translate (poly ! prev) (polyNormal poly area mode prev) delta)
           (polyDir poly prev)
           (translate (poly ! i) (polyNormal poly area mode i) delta)
           (polyDir poly i))"

text \<open>
  \<open>offsetting points delta poly area\<close>: the call \<open>offsetPolygon points delta mode\<close>
  passes all three early returns, with \<open>poly\<close> the polygon left by the closing-point loop
  and \<open>area\<close> its signed area. (The loop drops at most one point, so three points in
  \<open>poly\<close> mean at least three in \<open>points\<close>.)
\<close>

definition offsetting :: "Point list \<Rightarrow> real \<Rightarrow> Point list \<Rightarrow> real \<Rightarrow> bool" where
  "offsetting points delta poly area \<longleftrightarrow>
     delta \<noteq> 0 \<and> dropClosing points (length points) 0 points = Some poly \<and> 3 \<le> length poly
     \<and> signedArea poly = Some area \<and> epsilon \<le> \<bar>area\<bar>"

section \<open>svg2gcode.go: writeGcode\<close>

record Path =
  Points :: "Point list"
  Closed :: bool
  Stroke :: string

record Config =
  SafeZ :: real
  CutDepth :: real
  StepDown :: real
  CutFeed :: real
  PlungeFeed :: real
  Scale :: real
  ToolDia :: real
  Compensation :: string
  ConstructionColor :: string
  SvgWidth :: real
  SvgHeight :: real

text \<open>
  One value of \<open>gline\<close> is one line written to the output, carrying the numbers that the
  format string prints (the rounding to three decimals is not modelled):
  the header comment, \<^verbatim>\<open>G21\<close>, \<^verbatim>\<open>G90\<close>, \<^verbatim>\<open>G0 Z\<close>, \<^verbatim>\<open>G0 X Y\<close>,
  \<^verbatim>\<open>G1 Z F\<close> (a plunge), \<^verbatim>\<open>G1 X Y F\<close> (a cut), the per-path comment,
  \<^verbatim>\<open>M5\<close> and \<^verbatim>\<open>M2\<close>.
\<close>

datatype gline =
    Generated
  | G21
  | G90
  | G0Z real
  | G0XY real real
  | G1Z real real
  | G1XY real real real
  | PathComment nat string
  | M5
  | M2

datatype error =
    CutDepthNotNegative real
  | IndexOutOfRange

definition writePoint :: "Point \<Rightarrow> Config \<Rightarrow> real \<times> real" where
  "writePoint pt cfg = (X pt * Scale cfg, (SvgHeight cfg - Y pt) * Scale cfg)"

text \<open>
  One iteration of the depth loop up to its exit test: the depth \<^verbatim>\<open>nextZ\<close> reached
  from \<open>z\<close>, and the lines written (the plunge, then one cut per point after the first).
\<close>

definition nextDepth :: "real \<Rightarrow> real \<Rightarrow> real \<Rightarrow> real" where
  "nextDepth step targetZ z =
     (let nextZ = z - step in if nextZ < targetZ then targetZ else nextZ)"

definition cutLine :: "Config \<Rightarrow> Point \<Rightarrow> gline" where
  "cutLine cfg pt = G1XY (fst (writePoint pt cfg)) (snd (writePoint pt cfg)) (CutFeed cfg)"

definition passLines :: "Config \<Rightarrow> Point list \<Rightarrow> real \<Rightarrow> gline list" where
  "passLines cfg pts nextZ = G1Z nextZ (PlungeFeed cfg) # map (cutLine cfg) (drop 1 pts)"

text \<open>
  The \<^verbatim>\<open>for { ... }\<close> loop of one path, entered with depth \<open>z\<close>. It has no bound,
  so it is a partial function: \<open>None\<close> is "the loop never exits". After a pass that has
  not reached \<open>targetZ\<close> the source retracts, returns to the first point and assigns
  \<^verbatim>\<open>z = cfg.SafeZ\<close>.
\<close>

partial_function (option) depthLoop ::
  "Config \<Rightarrow> Point list \<Rightarrow> real \<Rightarrow> real \<Rightarrow> real \<Rightarrow> real \<Rightarrow> real \<Rightarrow> gline list option" where
  "depthLoop cfg pts step targetZ x0 y0 z =
     (let nextZ = nextDepth step targetZ z;
          lines = passLines cfg pts nextZ
      in if nextZ \<le> targetZ then Some lines
         else
           do {
             rest \<leftarrow> depthLoop cfg pts step targetZ x0 y0 (SafeZ cfg);
             Some (lines @ [G0Z (SafeZ cfg), G0XY x0 y0] @ rest)
           })"

text \<open>The body of the loop over the paths, for the path \<open>p\<close> at index \<open>idx\<close>.\<close>

definition emitPath :: "Config \<Rightarrow> real \<Rightarrow> real \<Rightarrow> nat \<Rightarrow> Path \<Rightarrow> gline list option" where
  "emitPath cfg step targetZ idx p =
     (if length (Points p) = 0 then Some []
      else
        let first = Points p ! 0;
            x0 = fst (writePoint first cfg);
            y0 = snd (writePoint first cfg)
        in do {
             passes \<leftarrow> depthLoop cfg (Points p) step targetZ x0 y0 (SafeZ cfg);
             Some ([PathComment (idx + 1) (Stroke p), G0XY x0 y0, G0Z (SafeZ cfg)]
                   @ passes @ [G0Z (SafeZ cfg)])
           })"

fun emitPaths :: "Config \<Rightarrow> real \<Rightarrow> real \<Rightarrow> nat \<Rightarrow> Path list \<Rightarrow> gline list option" where
  "emitPaths cfg step targetZ idx [] = Some []"
| "emitPaths cfg step targetZ idx (p # ps) =
     do {
       a \<leftarrow> emitPath cfg step targetZ idx p;
       b \<leftarrow> emitPaths cfg step targetZ (idx + 1) ps;
       Some (a @ b)
     }"

text \<open>
  The cutter-compensation loop; \<open>None\<close> is a panic inside \<open>offsetPolygon\<close>.
\<close>

fun compensatePaths :: "real \<Rightarrow> string \<Rightarrow> Path list \<Rightarrow> Path list option" where
  "compensatePaths radiusSVG mode [] = Some []"
| "compensatePaths radiusSVG mode (p # ps) =
     (if \<not> Closed p then
        do { rest \<leftarrow> compensatePaths radiusSVG mode ps; Some (p # rest) }
      else
        do {
          offsetPts \<leftarrow> offsetPolygon (Points p) radiusSVG mode;
          rest \<leftarrow> compensatePaths radiusSVG mode ps;
          if length offsetPts < 2 then Some rest
          else Some (\<lparr>Points = offsetPts, Closed = True, Stroke = Stroke p\<rparr> # rest)
        })"

definition stepOf :: "Config \<Rightarrow> real" where
  "stepOf cfg =
     (let targetZ = CutDepth cfg;
          step = StepDown cfg;
          step' = (if step \<le> 0 then \<bar>targetZ - SafeZ cfg\<bar> else step)
      in \<bar>step'\<bar>)"

text \<open>
  \<^verbatim>\<open>func writeGcode(w io.Writer, paths []Path, cfg Config) error\<close>. The result is
  \<open>None\<close> when the call never returns, and otherwise the lines written to \<open>w\<close> together
  with the error returned (\<open>None\<close> for \<^verbatim>\<open>nil\<close>).
\<close>

definition preamble :: "Config \<Rightarrow> gline list" where
  "preamble cfg = [Generated, G21, G90, G0Z (SafeZ cfg)]"

definition writeGcode :: "Path list \<Rightarrow> Config \<Rightarrow> (gline list \<times> error option) option" where
  "writeGcode paths cfg =
     (if CutDepth cfg \<ge> 0 then Some (preamble cfg, Some (CutDepthNotNegative (CutDepth cfg)))
      else
        let targetZ = CutDepth cfg;
            step = stepOf cfg;
            compPaths =
              (if Compensation cfg \<noteq> ''none'' \<and> ToolDia cfg > 0
               then compensatePaths (ToolDia cfg / 2 / Scale cfg) (Compensation cfg) paths
               else Some paths)
        in case compPaths of
             None \<Rightarrow> Some (preamble cfg, Some IndexOutOfRange)
           | Some paths' \<Rightarrow>
               do {
                 body \<leftarrow> emitPaths cfg step targetZ 0 paths';
                 Some (preamble cfg @ body @ [M5, M2], None)
               })"

section \<open>Example inputs\<close>

definition pt :: "real \<Rightarrow> real \<Rightarrow> Point" where
  "pt x y = \<lparr>X = x, Y = y\<rparr>"

text \<open>The default flags with \<^verbatim>\<open>-stepdown 1\<close>: safe height 5, cut depth -1.\<close>

definition cfgStep :: Config where
  "cfgStep =
     \<lparr>SafeZ = 5, CutDepth = - 1, StepDown = 1, CutFeed = 300, PlungeFeed = 120, Scale = 1,
      ToolDia = 0, Compensation = ''none'', ConstructionColor = [],
      SvgWidth = 10, SvgHeight = 10\<rparr>"

definition dotPath :: Path where
  "dotPath = \<lparr>Points = [pt 0 0], Closed = False, Stroke = []\<rparr>"

text \<open>The same configuration with cut depth 0.\<close>

definition cfgZero :: Config where
  "cfgZero = cfgStep\<lparr>CutDepth := 0\<rparr>"

text \<open>
  A counter-clockwise pentagon whose vertex \<open>(1, 0)\<close> lies on a straight side, with and
  without its closing point; a closed triangle.
\<close>

definition pentagon :: "Point list" where
  "pentagon = [pt 0 0, pt 1 0, pt 2 0, pt 2 2, pt 0 2]"

definition closedPentagon :: "Point list" where
  "closedPentagon = pentagon @ [pt 0 0]"

definition closedTriangle :: "Point list" where
  "closedTriangle = [pt 0 0, pt 1 0, pt 1 1, pt 0 0]"

text \<open>
  Four control points next to \<open>10 ^ 16\<close>, where neighbouring \<^verbatim>\<open>float64\<close> values are 2
  apart, and the \<^verbatim>\<open>float64\<close> value of the flatness constant \<^verbatim>\<open>0.1\<close> of
  \<^verbatim>\<open>parseSimplePath\<close>.
\<close>

definition farA :: Point where
  "farA = pt 10000000000000000 10000000000000000"

definition farB :: Point where
  "farB = pt 10000000000000002 10000000000000000"

definition farC :: Point where
  "farC = pt 10000000000000000 10000000000000002"

definition farD :: Point where
  "farD = pt 10000000000000002 10000000000000002"

definition flatness64 :: real where
  "flatness64 = 3602879701896397 / 2 ^ 55"

section \<open>Measures used in the proofs\<close>

text \<open>
  The length of the control polygon \<open>p0 p1 p2 p3\<close> in the 1-norm. It bounds both flatness
  distances and shrinks by the factor 7/8 in each half of a subdivision.
\<close>

definition polyLen :: "Point \<Rightarrow> Point \<Rightarrow> Point \<Rightarrow> Point \<Rightarrow> real" where
  "polyLen p0 p1 p2 p3 =
     \<bar>X p1 - X p0\<bar> + \<bar>Y p1 - Y p0\<bar> + (\<bar>X p2 - X p1\<bar> + \<bar>Y p2 - Y p1\<bar>) +
     (\<bar>X p3 - X p2\<bar> + \<bar>Y p3 - Y p2\<bar>)"

section \<open>Transform composition\<close>

text \<open>
  Claim C9. For all transforms \<open>t\<close>, \<open>u\<close> and every point \<open>p\<close>, applying the
  composed transform \<open>Mul t u\<close> to \<open>p\<close> is the same as applying \<open>u\<close> first and
  \<open>t\<close> second (exact arithmetic).
\<close>

theorem Mul_Apply: "Apply (Mul t u) p = Apply t (Apply u p)"
  by (simp add: Apply_def Mul_def algebra_simps)

section \<open>Curve flattening without rounding\<close>

lemma lerp_exact:
  "lerp exact a b t = \<lparr>X = X a + (X b - X a) * t, Y = Y a + (Y b - Y a) * t\<rparr>"
  by (simp add: lerp_def exact_def)

lemma scaled_sqrt:
  fixes h l :: real
  assumes "0 < h"
  shows "h * sqrt (1 + l / h * (l / h)) = sqrt (h * h + l * l)"
proof -
  have "h * sqrt (1 + l / h * (l / h)) = sqrt (h * h) * sqrt (1 + l / h * (l / h))"
    using assms by simp
  also have "\<dots> = sqrt (h * h * (1 + l / h * (l / h)))" by (rule real_sqrt_mult [symmetric])
  also have "h * h * (1 + l / h * (l / h)) = h * h + l * l"
    using assms by (simp add: field_simps)
  finally show ?thesis .
qed

lemma mathHypot_exact: "mathHypot exact p q = Hypot p q"
proof (cases "\<bar>p\<bar> < \<bar>q\<bar>")
  case True
  then have "0 < \<bar>q\<bar>" by linarith
  moreover from this have "q \<noteq> 0" by auto
  ultimately show ?thesis
    using scaled_sqrt [of "\<bar>q\<bar>" "\<bar>p\<bar>"] True
    by (simp add: mathHypot_def exact_def Hypot_def Let_def add.commute)
next
  case False
  show ?thesis
  proof (cases "\<bar>p\<bar> = 0")
    case True
    with False show ?thesis by (simp add: mathHypot_def exact_def Hypot_def Let_def)
  next
    case nz: False
    then have "0 < \<bar>p\<bar>" by simp
    from scaled_sqrt [OF this, of "\<bar>q\<bar>"] False nz show ?thesis
      by (simp add: mathHypot_def exact_def Hypot_def Let_def)
  qed
qed

lemma distPointToLine_exact:
  "distPointToLine exact p a b =
     (let dx = X b - X a;
          dy = Y b - Y a
      in if dx = 0 \<and> dy = 0 then Hypot (X p - X a) (Y p - Y a)
         else
           let t = ((X p - X a) * dx + (Y p - Y a) * dy) / (dx * dx + dy * dy);
               px = X a + t * dx;
               py = Y a + t * dy
           in Hypot (X p - px) (Y p - py))"
  unfolding distPointToLine_def mathHypot_exact by (simp add: exact_def Let_def)

lemma Hypot_le_abs: "Hypot u v \<le> \<bar>u\<bar> + \<bar>v\<bar>"
  using sqrt_sum_squares_le_sum_abs [of u v] by (simp add: Hypot_def power2_eq_square)

lemma Hypot_mono: "a * a + b * b \<le> u * u + v * v \<Longrightarrow> Hypot a b \<le> Hypot u v"
  by (simp add: Hypot_def)

lemma proj_shrinks:
  fixes u v dx dy :: real
  assumes q: "0 < dx * dx + dy * dy"
  defines "t \<equiv> (u * dx + v * dy) / (dx * dx + dy * dy)"
  shows "(u - t * dx) * (u - t * dx) + (v - t * dy) * (v - t * dy) \<le> u * u + v * v"
proof -
  let ?q = "dx * dx + dy * dy"
  let ?w = "u * dx + v * dy"
  have tq: "t * ?q = ?w" using q by (simp add: t_def)
  have "(u - t * dx) * (u - t * dx) + (v - t * dy) * (v - t * dy)
        = u * u + v * v - 2 * t * ?w + t * (t * ?q)"
    by (simp add: algebra_simps)
  also have "\<dots> = u * u + v * v - t * ?w" by (simp add: tq)
  also have "t * ?w = ?w * ?w / ?q" by (simp add: t_def)
  finally have eq: "(u - t * dx) * (u - t * dx) + (v - t * dy) * (v - t * dy)
        = u * u + v * v - ?w * ?w / ?q" .
  have "0 \<le> ?w * ?w / ?q" using q by (simp add: divide_nonneg_pos)
  with eq show ?thesis by linarith
qed

lemma distPointToLine_le: "distPointToLine exact p a b \<le> \<bar>X p - X a\<bar> + \<bar>Y p - Y a\<bar>"
proof (cases "X b - X a = 0 \<and> Y b - Y a = 0")
  case True
  then show ?thesis by (simp add: distPointToLine_exact Hypot_le_abs)
next
  case False
  let ?dx = "X b - X a" and ?dy = "Y b - Y a"
  let ?u = "X p - X a" and ?v = "Y p - Y a"
  let ?t = "(?u * ?dx + ?v * ?dy) / (?dx * ?dx + ?dy * ?dy)"
  from False have q: "0 < ?dx * ?dx + ?dy * ?dy"
    by (metis add_pos_nonneg add_nonneg_pos mult_eq_0_iff not_square_less_zero linorder_neqE_linordered_idom zero_le_square less_eq_real_def)
  have d: "distPointToLine exact p a b = Hypot (X p - (X a + ?t * ?dx)) (Y p - (Y a + ?t * ?dy))"
    using False by (simp add: distPointToLine_exact Let_def)
  have e1: "X p - (X a + ?t * ?dx) = ?u - ?t * ?dx" by simp
  have e2: "Y p - (Y a + ?t * ?dy) = ?v - ?t * ?dy" by simp
  have "Hypot (?u - ?t * ?dx) (?v - ?t * ?dy) \<le> Hypot ?u ?v"
    by (rule Hypot_mono) (rule proj_shrinks [OF q])
  also have "\<dots> \<le> \<bar>?u\<bar> + \<bar>?v\<bar>" by (rule Hypot_le_abs)
  finally show ?thesis unfolding d e1 e2 .
qed

lemma lin_mix:
  fixes p q r s t u :: real
  assumes "p = s / 2" "q \<le> (s + t) / 4" "r \<le> (s + 2 * t + u) / 8" "0 \<le> t" "0 \<le> u"
  shows "p + q + r \<le> 7 / 8 * (s + t + u)"
  using assms by argo

lemma abs_mix:
  fixes a b c :: real
  shows "\<bar>a / 2\<bar> + \<bar>(a + b) / 4\<bar> + \<bar>(a + 2 * b + c) / 8\<bar> \<le> 7 / 8 * (\<bar>a\<bar> + \<bar>b\<bar> + \<bar>c\<bar>)"
proof (rule lin_mix)
  show "\<bar>a / 2\<bar> = \<bar>a\<bar> / 2" by simp
  show "\<bar>(a + b) / 4\<bar> \<le> (\<bar>a\<bar> + \<bar>b\<bar>) / 4" by (simp add: divide_right_mono)
  have "\<bar>a + 2 * b + c\<bar> \<le> \<bar>a + 2 * b\<bar> + \<bar>c\<bar>" by (rule abs_triangle_ineq)
  also have "\<bar>a + 2 * b\<bar> \<le> \<bar>a\<bar> + \<bar>2 * b\<bar>" by (rule abs_triangle_ineq)
  finally have "\<bar>a + 2 * b + c\<bar> \<le> \<bar>a\<bar> + 2 * \<bar>b\<bar> + \<bar>c\<bar>" by (simp add: abs_mult)
  then show "\<bar>(a + 2 * b + c) / 8\<bar> \<le> (\<bar>a\<bar> + 2 * \<bar>b\<bar> + \<bar>c\<bar>) / 8" by simp
qed simp_all

lemma halves_left:
  fixes xa xb xc xd :: real
  defines "m01 \<equiv> xa + (xb - xa) * (5 / 10)"
  defines "m12 \<equiv> xb + (xc - xb) * (5 / 10)"
  defines "m23 \<equiv> xc + (xd - xc) * (5 / 10)"
  defines "m012 \<equiv> m01 + (m12 - m01) * (5 / 10)"
  defines "m123 \<equiv> m12 + (m23 - m12) * (5 / 10)"
  defines "m0123 \<equiv> m012 + (m123 - m012) * (5 / 10)"
  shows "\<bar>m01 - xa\<bar> + \<bar>m012 - m01\<bar> + \<bar>m0123 - m012\<bar>
           \<le> 7 / 8 * (\<bar>xb - xa\<bar> + \<bar>xc - xb\<bar> + \<bar>xd - xc\<bar>)"
proof -
  have a: "m01 - xa = (xb - xa) / 2" by (simp add: m01_def)
  have b: "m012 - m01 = ((xb - xa) + (xc - xb)) / 4"
    by (simp add: m012_def m01_def m12_def field_simps)
  have c: "m0123 - m012 = ((xb - xa) + 2 * (xc - xb) + (xd - xc)) / 8"
    by (simp add: m0123_def m123_def m012_def m01_def m12_def m23_def field_simps)
  show ?thesis unfolding a b c by (rule abs_mix)
qed

lemma halves_right:
  fixes xa xb xc xd :: real
  defines "m01 \<equiv> xa + (xb - xa) * (5 / 10)"
  defines "m12 \<equiv> xb + (xc - xb) * (5 / 10)"
  defines "m23 \<equiv> xc + (xd - xc) * (5 / 10)"
  defines "m012 \<equiv> m01 + (m12 - m01) * (5 / 10)"
  defines "m123 \<equiv> m12 + (m23 - m12) * (5 / 10)"
  defines "m0123 \<equiv> m012 + (m123 - m012) * (5 / 10)"
  shows "\<bar>m123 - m0123\<bar> + \<bar>m23 - m123\<bar> + \<bar>xd - m23\<bar>
           \<le> 7 / 8 * (\<bar>xb - xa\<bar> + \<bar>xc - xb\<bar> + \<bar>xd - xc\<bar>)"
proof -
  have a: "xd - m23 = (xd - xc) / 2" by (simp add: m23_def field_simps)
  have b: "m23 - m123 = ((xd - xc) + (xc - xb)) / 4"
    by (simp add: m123_def m23_def m12_def field_simps)
  have c: "m123 - m0123 = ((xd - xc) + 2 * (xc - xb) + (xb - xa)) / 8"
    by (simp add: m0123_def m123_def m012_def m01_def m12_def m23_def field_simps)
  have "\<bar>(xd - xc) / 2\<bar> + \<bar>((xd - xc) + (xc - xb)) / 4\<bar> + \<bar>((xd - xc) + 2 * (xc - xb) + (xb - xa)) / 8\<bar>
        \<le> 7 / 8 * (\<bar>xd - xc\<bar> + \<bar>xc - xb\<bar> + \<bar>xb - xa\<bar>)" by (rule abs_mix)
  then show ?thesis unfolding a b c by (simp add: add.commute add.left_commute)
qed

lemma polyLen_nonneg: "0 \<le> polyLen p0 p1 p2 p3"
  by (simp add: polyLen_def)

lemma polyLen_left:
  "polyLen p0 (lerp exact p0 p1 (5 / 10)) (lerp exact (lerp exact p0 p1 (5 / 10)) (lerp exact p1 p2 (5 / 10)) (5 / 10))
     (lerp exact (lerp exact (lerp exact p0 p1 (5 / 10)) (lerp exact p1 p2 (5 / 10)) (5 / 10))
           (lerp exact (lerp exact p1 p2 (5 / 10)) (lerp exact p2 p3 (5 / 10)) (5 / 10)) (5 / 10))
   \<le> 7 / 8 * polyLen p0 p1 p2 p3"
  using halves_left [where xa="X p0" and xb="X p1" and xc="X p2" and xd="X p3"]
    halves_left [where xa="Y p0" and xb="Y p1" and xc="Y p2" and xd="Y p3"]
  unfolding polyLen_def lerp_exact by simp

lemma polyLen_right:
  "polyLen (lerp exact (lerp exact (lerp exact p0 p1 (5 / 10)) (lerp exact p1 p2 (5 / 10)) (5 / 10))
           (lerp exact (lerp exact p1 p2 (5 / 10)) (lerp exact p2 p3 (5 / 10)) (5 / 10)) (5 / 10))
     (lerp exact (lerp exact p1 p2 (5 / 10)) (lerp exact p2 p3 (5 / 10)) (5 / 10)) (lerp exact p2 p3 (5 / 10)) p3
   \<le> 7 / 8 * polyLen p0 p1 p2 p3"
  using halves_right [where xa="X p0" and xb="X p1" and xc="X p2" and xd="X p3"]
    halves_right [where xa="Y p0" and xb="Y p1" and xc="Y p2" and xd="Y p3"]
  unfolding polyLen_def lerp_exact by simp

lemma flat_if_short:
  assumes "polyLen p0 p1 p2 p3 \<le> fl"
  shows "distPointToLine exact p1 p0 p3 \<le> fl" and "distPointToLine exact p2 p0 p3 \<le> fl"
proof -
  have "distPointToLine exact p1 p0 p3 \<le> \<bar>X p1 - X p0\<bar> + \<bar>Y p1 - Y p0\<bar>" by (rule distPointToLine_le)
  also have "\<dots> \<le> polyLen p0 p1 p2 p3" by (simp add: polyLen_def)
  finally show "distPointToLine exact p1 p0 p3 \<le> fl" using assms by simp
  have "distPointToLine exact p2 p0 p3 \<le> \<bar>X p2 - X p0\<bar> + \<bar>Y p2 - Y p0\<bar>" by (rule distPointToLine_le)
  also have "\<dots> \<le> polyLen p0 p1 p2 p3" unfolding polyLen_def by linarith
  finally show "distPointToLine exact p2 p0 p3 \<le> fl" using assms by simp
qed

lemma flatten_flat:
  assumes "distPointToLine exact p1 p0 p3 \<le> fl" "distPointToLine exact p2 p0 p3 \<le> fl"
  shows "flattenCubicBezier exact p0 p1 p2 p3 fl out = Some (out @ [p3])"
  using assms by (subst flattenCubicBezier.simps) (simp add: Let_def)

lemma flatten_split:
  assumes "\<not> (distPointToLine exact p1 p0 p3 \<le> fl \<and> distPointToLine exact p2 p0 p3 \<le> fl)"
  shows "flattenCubicBezier exact p0 p1 p2 p3 fl out =
     (flattenCubicBezier exact p0 (lerp exact p0 p1 (5 / 10))
          (lerp exact (lerp exact p0 p1 (5 / 10)) (lerp exact p1 p2 (5 / 10)) (5 / 10))
          (lerp exact (lerp exact (lerp exact p0 p1 (5 / 10)) (lerp exact p1 p2 (5 / 10)) (5 / 10))
                (lerp exact (lerp exact p1 p2 (5 / 10)) (lerp exact p2 p3 (5 / 10)) (5 / 10)) (5 / 10)) fl out
      \<bind> flattenCubicBezier exact
          (lerp exact (lerp exact (lerp exact p0 p1 (5 / 10)) (lerp exact p1 p2 (5 / 10)) (5 / 10))
                (lerp exact (lerp exact p1 p2 (5 / 10)) (lerp exact p2 p3 (5 / 10)) (5 / 10)) (5 / 10))
          (lerp exact (lerp exact p1 p2 (5 / 10)) (lerp exact p2 p3 (5 / 10)) (5 / 10))
          (lerp exact p2 p3 (5 / 10)) p3 fl)"
  by (subst flattenCubicBezier.simps, unfold Let_def, subst if_not_P [OF assms], rule refl)

lemma shrink_step:
  fixes l l' fl :: real
  assumes "l' \<le> 7 / 8 * l" "l * (7 / 8) ^ Suc k \<le> fl"
  shows "l' * (7 / 8) ^ k \<le> fl"
proof -
  have "l' * (7 / 8) ^ k \<le> (7 / 8 * l) * (7 / 8) ^ k"
    using assms(1) by (rule mult_right_mono) simp
  also have "\<dots> = l * (7 / 8) ^ Suc k" by simp
  finally have "l' * (7 / 8) ^ k \<le> l * (7 / 8) ^ Suc k" .
  then show ?thesis using assms(2) by (rule order_trans)
qed

lemma flatten_fuel:
  "polyLen p0 p1 p2 p3 * (7 / 8) ^ k \<le> fl \<Longrightarrow>
   \<exists>pts. flattenCubicBezier exact p0 p1 p2 p3 fl out = Some (out @ pts) \<and> pts \<noteq> [] \<and> last pts = p3"
proof (induction k arbitrary: p0 p1 p2 p3 out)
  case 0
  then have "polyLen p0 p1 p2 p3 \<le> fl" by simp
  then have "flattenCubicBezier exact p0 p1 p2 p3 fl out = Some (out @ [p3])"
    by (intro flatten_flat flat_if_short)
  then show ?case by simp
next
  case (Suc k)
  show ?case
  proof (cases "distPointToLine exact p1 p0 p3 \<le> fl \<and> distPointToLine exact p2 p0 p3 \<le> fl")
    case True
    then have "flattenCubicBezier exact p0 p1 p2 p3 fl out = Some (out @ [p3])"
      by (simp add: flatten_flat)
    then show ?thesis by simp
  next
    case False
    define m01 where "m01 = lerp exact p0 p1 (5 / 10)"
    define m12 where "m12 = lerp exact p1 p2 (5 / 10)"
    define m23 where "m23 = lerp exact p2 p3 (5 / 10)"
    define m012 where "m012 = lerp exact m01 m12 (5 / 10)"
    define m123 where "m123 = lerp exact m12 m23 (5 / 10)"
    define m0123 where "m0123 = lerp exact m012 m123 (5 / 10)"
    note ms = m01_def m12_def m23_def m012_def m123_def m0123_def
    have unf: "flattenCubicBezier exact p0 p1 p2 p3 fl out =
        (flattenCubicBezier exact p0 m01 m012 m0123 fl out \<bind> flattenCubicBezier exact m0123 m123 m23 p3 fl)"
      unfolding ms by (rule flatten_split [OF False])
    have "polyLen p0 m01 m012 m0123 \<le> 7 / 8 * polyLen p0 p1 p2 p3"
      unfolding ms by (rule polyLen_left)
    then have "polyLen p0 m01 m012 m0123 * (7 / 8) ^ k \<le> fl"
      using Suc.prems by (rule shrink_step)
    from Suc.IH [OF this, of out] obtain ptsL
      where lft: "flattenCubicBezier exact p0 m01 m012 m0123 fl out = Some (out @ ptsL)" by blast
    have "polyLen m0123 m123 m23 p3 \<le> 7 / 8 * polyLen p0 p1 p2 p3"
      unfolding ms by (rule polyLen_right)
    then have "polyLen m0123 m123 m23 p3 * (7 / 8) ^ k \<le> fl"
      using Suc.prems by (rule shrink_step)
    from Suc.IH [OF this, of "out @ ptsL"] obtain ptsR
      where rgt: "flattenCubicBezier exact m0123 m123 m23 p3 fl (out @ ptsL) = Some ((out @ ptsL) @ ptsR)"
        and ne: "ptsR \<noteq> []" and lst: "last ptsR = p3" by blast
    have "flattenCubicBezier exact p0 p1 p2 p3 fl out = Some (out @ (ptsL @ ptsR))"
      by (simp add: unf lft rgt)
    moreover have "ptsL @ ptsR \<noteq> []" "last (ptsL @ ptsR) = p3" using ne lst by simp_all
    ultimately show ?thesis by blast
  qed
qed

lemma fuel_exists:
  fixes l fl :: real
  assumes "0 \<le> l" "0 < fl"
  shows "\<exists>k. l * (7 / 8) ^ k \<le> fl"
proof (cases "l = 0")
  case True
  then show ?thesis using assms by simp
next
  case False
  with assms have lp: "0 < l" by simp
  then have "0 < fl / l" using assms by simp
  then obtain k where "(7 / 8 :: real) ^ k < fl / l"
    using real_arch_pow_inv [of "fl / l" "7 / 8"] by auto
  then have "l * (7 / 8) ^ k < fl" using lp by (simp add: field_simps)
  then show ?thesis by (intro exI [of _ k]) simp
qed

text \<open>
  Claim C8, amended. Read without rounding, \<open>flattenCubicBezier\<close> returns for every four
  control points and every positive flatness tolerance: the bisection reaches, after
  finitely many levels, segments whose two control-point distances are at most the
  tolerance. The points it appends are not empty and end with \<open>p3\<close>. When the chord has
  length zero, \<open>distPointToLine\<close> is the Euclidean distance to the chord's point.
\<close>

theorem flattenCubicBezier_exact_terminates:
  assumes "0 < flatness"
  shows "(\<exists>pts. flattenCubicBezier exact p0 p1 p2 p3 flatness out = Some (out @ pts)
            \<and> pts \<noteq> [] \<and> last pts = p3)
         \<and> distPointToLine exact p a a = Hypot (X p - X a) (Y p - Y a)"
proof
  from fuel_exists [OF polyLen_nonneg assms] obtain k
    where "polyLen p0 p1 p2 p3 * (7 / 8) ^ k \<le> flatness" by blast
  then show "\<exists>pts. flattenCubicBezier exact p0 p1 p2 p3 flatness out = Some (out @ pts)
            \<and> pts \<noteq> [] \<and> last pts = p3" by (rule flatten_fuel)
  show "distPointToLine exact p a a = Hypot (X p - X a) (Y p - Y a)"
    by (simp add: distPointToLine_exact)
qed

theorem flattenCubicBezier_exact_terminates_witness:
  "(0::real) < 1 / 10 \<and>
   (\<exists>pts. flattenCubicBezier exact (pt 0 0) (pt 0 0) (pt 10 0) (pt 10 10) (1 / 10) [] = Some ([] @ pts)
            \<and> pts \<noteq> [] \<and> last pts = pt 10 10) \<and>
   distPointToLine exact (pt 3 4) (pt 0 0) (pt 0 0) = Hypot (X (pt 3 4) - X (pt 0 0)) (Y (pt 3 4) - Y (pt 0 0))"
  using flattenCubicBezier_exact_terminates [of "1 / 10" "pt 0 0" "pt 0 0" "pt 10 0" "pt 10 10" "[]" "pt 3 4" "pt 0 0"]
  by simp

section \<open>Curve flattening in binary64\<close>

lemma binary64_big:
  assumes "2 ^ (52 + k) \<le> \<bar>x\<bar>" "\<bar>x\<bar> < 2 ^ (53 + k)"
  shows "binary64 x = of_int (roundEven (x / 2 ^ k)) * 2 ^ k"
proof -
  have "(0::real) < 2 ^ (52 + k)" by simp
  with assms(1) have pos: "0 < \<bar>x\<bar>" by linarith
  then have nz: "x \<noteq> 0" by simp
  have "(2::real) powr (of_int (int (52 + k))) \<le> \<bar>x\<bar>"
  proof -
    have "(2::real) powr (of_int (int (52 + k))) = 2 powr (real (52 + k))" by simp
    also have "\<dots> = 2 ^ (52 + k)" by (rule powr_realpow) simp
    finally show ?thesis using assms(1) by simp
  qed
  moreover have "\<bar>x\<bar> < (2::real) powr (of_int (int (52 + k) + 1))"
  proof -
    have "(2::real) powr (of_int (int (52 + k) + 1)) = 2 powr (real (53 + k))" by simp
    also have "\<dots> = 2 ^ (53 + k)" by (rule powr_realpow) simp
    finally show ?thesis using assms(2) by simp
  qed
  ultimately have fl: "\<lfloor>log 2 \<bar>x\<bar>\<rfloor> = int (52 + k)"
    using floor_log_eq_powr_iff [of "\<bar>x\<bar>" 2 "int (52 + k)"] pos by simp
  have ulp: "(2::real) powr (of_int (max (int (52 + k)) (- 1022)) - 52) = 2 ^ k"
  proof -
    have "max (int (52 + k)) (- 1022) = int (52 + k)" by simp
    then have "(2::real) powr (of_int (max (int (52 + k)) (- 1022)) - 52) = 2 powr (real k)"
      by simp
    also have "\<dots> = 2 ^ k" by (rule powr_realpow) simp
    finally show ?thesis .
  qed
  show ?thesis using nz by (simp only: binary64_def fl ulp Let_def if_False)
qed

lemma binary64_small:
  assumes "2 ^ 52 \<le> \<bar>x\<bar> * 2 ^ k" "\<bar>x\<bar> * 2 ^ k < 2 ^ 53" "k \<le> 1074"
  shows "binary64 x = of_int (roundEven (x * 2 ^ k)) / 2 ^ k"
proof -
  have pos: "0 < \<bar>x\<bar>"
  proof (rule ccontr)
    assume "\<not> 0 < \<bar>x\<bar>"
    then have "\<bar>x\<bar> = 0" by simp
    with assms(1) show False by simp
  qed
  then have nz: "x \<noteq> 0" by simp
  have p1: "(2::real) powr (of_int (52 - int k)) = 2 ^ 52 / 2 ^ k"
  proof -
    have "(2::real) powr (of_int (52 - int k)) = 2 powr (real 52 - real k)" by simp
    also have "\<dots> = 2 powr (real 52) / 2 powr (real k)" by (rule powr_diff)
    also have "\<dots> = 2 ^ 52 / 2 ^ k" by (simp only: powr_realpow zero_less_numeral)
    finally show ?thesis .
  qed
  have p2: "(2::real) powr (of_int (52 - int k + 1)) = 2 ^ 53 / 2 ^ k"
  proof -
    have "(2::real) powr (of_int (52 - int k + 1)) = 2 powr (real 53 - real k)" by simp
    also have "\<dots> = 2 powr (real 53) / 2 powr (real k)" by (rule powr_diff)
    also have "\<dots> = 2 ^ 53 / 2 ^ k" by (simp only: powr_realpow zero_less_numeral)
    finally show ?thesis .
  qed
  have "(2::real) powr (of_int (52 - int k)) \<le> \<bar>x\<bar>"
    unfolding p1 using assms(1) by (simp add: field_simps)
  moreover have "\<bar>x\<bar> < (2::real) powr (of_int (52 - int k + 1))"
    unfolding p2 using assms(2) by (simp add: field_simps)
  ultimately have fl: "\<lfloor>log 2 \<bar>x\<bar>\<rfloor> = 52 - int k"
    using floor_log_eq_powr_iff [of "\<bar>x\<bar>" 2 "52 - int k"] pos by simp
  have ulp: "(2::real) powr (of_int (max (52 - int k) (- 1022)) - 52) = 1 / 2 ^ k"
  proof -
    have "max (52 - int k) (- 1022) = 52 - int k" using assms(3) by simp
    then have "(2::real) powr (of_int (max (52 - int k) (- 1022)) - 52) = 2 powr (- real k)"
      by simp
    also have "\<dots> = inverse (2 powr (real k))" by (rule powr_minus)
    also have "\<dots> = 1 / 2 ^ k" by (simp add: powr_realpow inverse_eq_divide)
    finally show ?thesis .
  qed
  show ?thesis using nz by (simp only: binary64_def fl ulp Let_def if_False) simp
qed

text \<open>The values that occur next to \<open>10 ^ 16\<close>: all are kept, except that the odd
  number between two neighbours goes to the one with the even significand.\<close>

lemma binary64_0: "binary64 0 = 0"
  by (simp add: binary64_def)

lemma binary64_half: "binary64 (1 / 2) = 1 / 2"
  by (subst binary64_small [where k = 53]) (simp_all add: roundEven_def)

lemma binary64_1: "binary64 1 = 1"
  by (subst binary64_small [where k = 52]) (simp_all add: roundEven_def)

lemma binary64_m1: "binary64 (- 1) = - 1"
  by (subst binary64_small [where k = 52]) (simp_all add: roundEven_def)

lemma binary64_2: "binary64 2 = 2"
  by (subst binary64_small [where k = 51]) (simp_all add: roundEven_def)

lemma binary64_m2: "binary64 (- 2) = - 2"
  by (subst binary64_small [where k = 51]) (simp_all add: roundEven_def)

lemma binary64_4: "binary64 4 = 4"
  by (subst binary64_small [where k = 50]) (simp_all add: roundEven_def)

lemma binary64_8: "binary64 8 = 8"
  by (subst binary64_small [where k = 49]) (simp_all add: roundEven_def)

lemma binary64_far: "binary64 10000000000000000 = 10000000000000000"
  by (subst binary64_big [where k = 1]) (simp_all add: roundEven_def)

lemma binary64_far1: "binary64 10000000000000001 = 10000000000000000"
  by (subst binary64_big [where k = 1]) (simp_all add: roundEven_def)

lemma binary64_far2: "binary64 10000000000000002 = 10000000000000002"
  by (subst binary64_big [where k = 1]) (simp_all add: roundEven_def)

lemma binary64_flatness64: "binary64 flatness64 = flatness64"
  unfolding flatness64_def
  by (subst binary64_small [where k = 56]) (simp_all add: roundEven_def)

lemma binary64_tenth: "binary64 (1 / 10) = flatness64"
  unfolding flatness64_def
  by (subst binary64_small [where k = 56]) (simp_all add: roundEven_def)

lemmas binary64_values =
  binary64_0 binary64_half binary64_1 binary64_m1 binary64_2 binary64_m2 binary64_4 binary64_8
  binary64_far binary64_far1 binary64_far2

lemma mathHypot_binary64:
  "mathHypot binary64 0 0 = 0" "mathHypot binary64 2 0 = 2" "mathHypot binary64 0 2 = 2"
  by (simp_all add: mathHypot_def binary64_values)

lemma far_dist:
  "distPointToLine binary64 farA farA farA = 0"
  "distPointToLine binary64 farA farA farD = 0"
  "distPointToLine binary64 farB farA farD = 2"
  "distPointToLine binary64 farC farA farD = 2"
  by (simp_all add: distPointToLine_def farA_def farB_def farC_def farD_def pt_def
      binary64_values mathHypot_binary64)

lemma far_lerp:
  "lerp binary64 farA farA (1 / 2) = farA"
  "lerp binary64 farA farB (1 / 2) = farA"
  "lerp binary64 farA farC (1 / 2) = farA"
  "lerp binary64 farB farC (1 / 2) = farA"
  "lerp binary64 farC farD (1 / 2) = farC"
  by (simp_all add: lerp_def farA_def farB_def farC_def farD_def pt_def binary64_values)

lemma flatness64_bounds: "0 < flatness64" "flatness64 < 2"
  by (simp_all add: flatness64_def)

text \<open>
  The second half of the subdivision of \<open>farA farA farC farD\<close> is \<open>farA farA farC farD\<close>
  again, and that segment is not flat: a call on it never returns.
\<close>

lemma far_segment_never_Some:
  assumes "flattenCubicBezier rnd p0 p1 p2 p3 fl out = Some r"
  shows "\<not> (rnd = binary64 \<and> p0 = farA \<and> p1 = farA \<and> p2 = farC \<and> p3 = farD \<and> fl = flatness64)"
proof (rule flattenCubicBezier.raw_induct
    [where P = "\<lambda>rnd p0 p1 p2 p3 fl out r.
        \<not> (rnd = binary64 \<and> p0 = farA \<and> p1 = farA \<and> p2 = farC \<and> p3 = farD \<and> fl = flatness64)",
     OF _ assms], goal_cases)
  case (1 f rnd p0 p1 p2 p3 fl out r)
  show ?case
  proof
    assume a: "rnd = binary64 \<and> p0 = farA \<and> p1 = farA \<and> p2 = farC \<and> p3 = farD \<and> fl = flatness64"
    have nf: "\<not> (2::real) \<le> flatness64" using flatness64_bounds(2) by simp
    from 1(2) a
    have "f binary64 farA farA farA farA flatness64 out
            \<bind> f binary64 farA farA farC farD flatness64 = Some r"
      by (simp add: Let_def far_dist far_lerp nf)
    then obtain out1 where "f binary64 farA farA farC farD flatness64 out1 = Some r"
      by (auto split: bind_splits)
    from 1(1) [OF this] show False by simp
  qed
qed

lemma far_segment_never_returns:
  "flattenCubicBezier binary64 farA farA farC farD flatness64 out = None"
proof (cases "flattenCubicBezier binary64 farA farA farC farD flatness64 out")
  case None
  then show ?thesis .
next
  case (Some r)
  from far_segment_never_Some [OF this] show ?thesis by simp
qed

text \<open>
  Claim C8, as stated, fails on the code's arithmetic. The four control points
  \<open>(10^16, 10^16)\<close>, \<open>(10^16 + 2, 10^16)\<close>, \<open>(10^16, 10^16 + 2)\<close>,
  \<open>(10^16 + 2, 10^16 + 2)\<close> and the flatness constant are \<^verbatim>\<open>float64\<close> values, the points
  are distinct and not on one line, and the tolerance is positive; in binary64 every
  midpoint \<open>10^16 + 1\<close> rounds back to \<open>10^16\<close>, the second half of the subdivision
  repeats with a distance of 2, and the call never returns.
\<close>

theorem flattenCubicBezier_binary64_counterexample:
  "0 < flatness64 \<and> binary64 (1 / 10) = flatness64 \<and> binary64 flatness64 = flatness64
   \<and> binary64 10000000000000000 = 10000000000000000
   \<and> binary64 10000000000000002 = 10000000000000002
   \<and> flattenCubicBezier binary64 farA farB farC farD flatness64 [] = None"
proof -
  have nf: "\<not> (2::real) \<le> flatness64" using flatness64_bounds(2) by simp
  have "flattenCubicBezier binary64 farA farB farC farD flatness64 [] =
      flattenCubicBezier binary64 farA farA farA farA flatness64 []
        \<bind> flattenCubicBezier binary64 farA farA farC farD flatness64"
    by (subst flattenCubicBezier.simps) (simp add: Let_def far_dist far_lerp nf)
  also have "\<dots> = None"
    by (cases "flattenCubicBezier binary64 farA farA farA farA flatness64 []")
       (simp_all add: far_segment_never_returns)
  finally show ?thesis
    using flatness64_bounds(1) binary64_tenth binary64_flatness64 binary64_far binary64_far2
    by simp
qed

section \<open>The depth loop of writeGcode\<close>

lemma depthLoop_exit:
  assumes "nextDepth step targetZ z \<le> targetZ"
  shows "depthLoop cfg pts step targetZ x0 y0 z = Some (passLines cfg pts (nextDepth step targetZ z))"
  using assms by (subst depthLoop.simps) (simp add: Let_def)

lemma depthLoop_again:
  assumes "\<not> nextDepth step targetZ z \<le> targetZ"
  shows "depthLoop cfg pts step targetZ x0 y0 z =
     depthLoop cfg pts step targetZ x0 y0 (SafeZ cfg) \<bind>
       (\<lambda>rest. Some (passLines cfg pts (nextDepth step targetZ z) @ [G0Z (SafeZ cfg), G0XY x0 y0] @ rest))"
  by (subst depthLoop.simps, unfold Let_def, subst if_not_P [OF assms], rule refl)

lemma depthLoop_never_Some:
  assumes "depthLoop cfg pts step targetZ x0 y0 z = Some out"
  shows "\<not> (z = SafeZ cfg \<and> \<not> nextDepth step targetZ (SafeZ cfg) \<le> targetZ)"
proof (rule depthLoop.raw_induct
    [where P = "\<lambda>cfg pts step targetZ x0 y0 z out.
                  \<not> (z = SafeZ cfg \<and> \<not> nextDepth step targetZ (SafeZ cfg) \<le> targetZ)",
     OF _ assms])
  fix f :: "Config \<Rightarrow> Point list \<Rightarrow> real \<Rightarrow> real \<Rightarrow> real \<Rightarrow> real \<Rightarrow> real \<Rightarrow> gline list option"
  fix cfg :: Config and pts :: "Point list" and step targetZ x0 y0 z :: real and out :: "gline list"
  assume IH: "\<And>cfg pts step targetZ x0 y0 z out.
      f cfg pts step targetZ x0 y0 z = Some out \<Longrightarrow>
      \<not> (z = SafeZ cfg \<and> \<not> nextDepth step targetZ (SafeZ cfg) \<le> targetZ)"
  assume body: "(let nextZ = nextDepth step targetZ z; lines = passLines cfg pts nextZ
      in if nextZ \<le> targetZ then Some lines
         else f cfg pts step targetZ x0 y0 (SafeZ cfg) \<bind>
              (\<lambda>rest. Some (lines @ [G0Z (SafeZ cfg), G0XY x0 y0] @ rest))) = Some out"
  show "\<not> (z = SafeZ cfg \<and> \<not> nextDepth step targetZ (SafeZ cfg) \<le> targetZ)"
  proof
    assume a: "z = SafeZ cfg \<and> \<not> nextDepth step targetZ (SafeZ cfg) \<le> targetZ"
    with body obtain rest where "f cfg pts step targetZ x0 y0 (SafeZ cfg) = Some rest"
      by (auto simp: Let_def split: bind_splits)
    from IH [OF this] a show False by simp
  qed
qed

lemma depthLoop_diverges:
  assumes "\<not> nextDepth step targetZ (SafeZ cfg) \<le> targetZ"
  shows "depthLoop cfg pts step targetZ x0 y0 (SafeZ cfg) = None"
proof (cases "depthLoop cfg pts step targetZ x0 y0 (SafeZ cfg)")
  case None
  then show ?thesis .
next
  case (Some out)
  from depthLoop_never_Some [OF this] assms show ?thesis by simp
qed

lemma depthLoop_single_pass:
  assumes "SafeZ cfg - step \<le> targetZ"
  shows "depthLoop cfg pts step targetZ x0 y0 (SafeZ cfg) = Some (passLines cfg pts targetZ)"
proof -
  have "nextDepth step targetZ (SafeZ cfg) = targetZ"
    using assms by (simp add: nextDepth_def Let_def)
  then show ?thesis using depthLoop_exit [of step targetZ "SafeZ cfg" cfg pts x0 y0] by simp
qed

lemma depthLoop_stuck:
  assumes "targetZ < SafeZ cfg - step"
  shows "depthLoop cfg pts step targetZ x0 y0 (SafeZ cfg) = None"
proof (rule depthLoop_diverges)
  show "\<not> nextDepth step targetZ (SafeZ cfg) \<le> targetZ"
    using assms by (simp add: nextDepth_def Let_def)
qed

text \<open>
  Claim C1. The claim says that the depth loop ends after finitely many passes, each pass
  starting from the depth the previous one reached. In the code every pass starts from
  the safe height again. With safe height 5, cut depth -1 and step-down 1 (the step used
  is 1) the loop of a one-point path, called as the loop over the paths calls it, never
  exits.
\<close>

theorem depthLoop_stepdown_never_exits:
  "depthLoop cfgStep (Points dotPath) (stepOf cfgStep) (CutDepth cfgStep)
     (fst (writePoint (Points dotPath ! 0) cfgStep)) (snd (writePoint (Points dotPath ! 0) cfgStep))
     (SafeZ cfgStep) = None"
proof -
  have s: "stepOf cfgStep = 1" by (simp add: stepOf_def cfgStep_def)
  have "CutDepth cfgStep < SafeZ cfgStep - 1" by (simp add: cfgStep_def)
  then show ?thesis unfolding s by (rule depthLoop_stuck)
qed

text \<open>
  Claim C2. The claim says that an entity gets exactly \<open>ceil (D / s)\<close> plunge passes, each
  one step deeper than the one before, the last one at the cut depth. With safe height 5,
  cut depth -1 and step-down 1 that would be six passes at 4, 3, 2, 1, 0 and -1. In the
  code the pass entered at the safe height plunges to 4 and is not the last one; after
  its lines, the retract and the rapid back to the first point, the loop is the loop
  entered at the safe height once more, so every pass plunges to 4. No plunge reaches the
  cut depth and \<open>writeGcode\<close> never returns.
\<close>

theorem writeGcode_stepdown_never_returns:
  "nextDepth (stepOf cfgStep) (CutDepth cfgStep) (SafeZ cfgStep) = 4
   \<and> depthLoop cfgStep (Points dotPath) (stepOf cfgStep) (CutDepth cfgStep) 0 10 (SafeZ cfgStep)
       = depthLoop cfgStep (Points dotPath) (stepOf cfgStep) (CutDepth cfgStep) 0 10 (SafeZ cfgStep)
           \<bind> (\<lambda>rest. Some ([G1Z 4 120] @ [G0Z 5, G0XY 0 10] @ rest))
   \<and> writeGcode [dotPath] cfgStep = None"
proof -
  have s: "stepOf cfgStep = 1" by (simp add: stepOf_def cfgStep_def)
  have n: "nextDepth 1 (CutDepth cfgStep) (SafeZ cfgStep) = 4"
    by (simp add: nextDepth_def cfgStep_def)
  have l: "passLines cfgStep (Points dotPath) 4 = [G1Z 4 120]"
    by (simp add: passLines_def dotPath_def cfgStep_def)
  have z: "SafeZ cfgStep = 5" by (simp add: cfgStep_def)
  have "\<not> nextDepth 1 (CutDepth cfgStep) (SafeZ cfgStep) \<le> CutDepth cfgStep"
    unfolding n by (simp add: cfgStep_def)
  from depthLoop_again [OF this, of cfgStep "Points dotPath" 0 10]
  have u: "depthLoop cfgStep (Points dotPath) 1 (CutDepth cfgStep) 0 10 (SafeZ cfgStep)
       = depthLoop cfgStep (Points dotPath) 1 (CutDepth cfgStep) 0 10 (SafeZ cfgStep)
           \<bind> (\<lambda>rest. Some ([G1Z 4 120] @ [G0Z 5, G0XY 0 10] @ rest))"
    unfolding n l unfolding z .
  have "CutDepth cfgStep < SafeZ cfgStep - 1" by (simp add: cfgStep_def)
  then have d: "depthLoop cfgStep (Points dotPath) 1 (CutDepth cfgStep) x0 y0 (SafeZ cfgStep) = None"
    for x0 y0 by (rule depthLoop_stuck)
  have "emitPath cfgStep 1 (CutDepth cfgStep) 0 dotPath = None"
    by (simp add: emitPath_def Let_def d) (simp add: dotPath_def)
  then have "emitPaths cfgStep 1 (CutDepth cfgStep) 0 [dotPath] = None" by simp
  then have w: "writeGcode [dotPath] cfgStep = None"
    by (simp add: writeGcode_def s Let_def) (simp add: cfgStep_def)
  show ?thesis unfolding s using n u w by blast
qed

section \<open>The cut-depth check of writeGcode\<close>

text \<open>
  Claim C3, as stated, fails: with cut depth 0 the four lines of the preamble, the last of
  them the rapid move to the safe height, are written before the error is returned.
\<close>

theorem cut_depth_error_output_counterexample:
  "CutDepth cfgZero = 0
   \<and> writeGcode [dotPath] cfgZero
       = Some ([Generated, G21, G90, G0Z 5], Some (CutDepthNotNegative 0))"
  by (simp add: writeGcode_def preamble_def cfgZero_def cfgStep_def)

text \<open>
  Claim C3, amended. If the configured cut depth is zero or positive, \<open>writeGcode\<close>
  returns the configuration error after writing exactly the four preamble lines (header
  comment, \<^verbatim>\<open>G21\<close>, \<^verbatim>\<open>G90\<close>, rapid move to the safe height) and nothing else: no
  line of any path, so no plunge and no cut, is written.
\<close>

theorem cut_depth_error_after_preamble:
  assumes "0 \<le> CutDepth cfg"
  shows "writeGcode paths cfg
           = Some ([Generated, G21, G90, G0Z (SafeZ cfg)], Some (CutDepthNotNegative (CutDepth cfg)))"
  using assms by (simp add: writeGcode_def preamble_def)

theorem cut_depth_error_after_preamble_witness:
  "0 \<le> CutDepth (cfgStep\<lparr>CutDepth := 2\<rparr>)
   \<and> writeGcode [dotPath] (cfgStep\<lparr>CutDepth := 2\<rparr>)
       = Some ([Generated, G21, G90, G0Z 5], Some (CutDepthNotNegative 2))"
  using cut_depth_error_after_preamble [of "cfgStep\<lparr>CutDepth := 2\<rparr>" "[dotPath]"]
  by (simp add: cfgStep_def)

section \<open>The tokenizer\<close>

text \<open>
  Claim C5. The claim says that every supported command letter, \<open>C\<close> and \<open>c\<close> included,
  becomes a token of its own. The tokenizer's list of command letters has no \<open>C\<close> and
  no \<open>c\<close>: a curve letter written next to a digit stays glued to the number, and the
  token is not a command for \<open>isCommand\<close>, which does know \<open>C\<close>. The letter \<open>L\<close> in
  the same position is separated.
\<close>

theorem tokenizePathData_C_not_separated:
  "tokenizePathData ''C10,10'' = [''C10'', ''10'']
   \<and> \<not> isCommand ''C10'' \<and> isCommand ''C''
   \<and> tokenizePathData ''L10,10'' = [''L'', ''10'', ''10'']
   \<and> tokenizePathData ''M0,0 C0,0 10,0 10,10''
       = [''M'', ''0'', ''0'', ''C0'', ''0'', ''10'', ''0'', ''10'', ''10'']"
  by (simp add: tokenizePathData_def Fields_def writeRune_def commands_def isSpace_def
      isCommand_def)

section \<open>offsetPolygon: no panic, and the shape of the result\<close>

lemma those_map_Some:
  assumes "\<And>x. x \<in> set xs \<Longrightarrow> f x = Some (g x)"
  shows "those (map f xs) = Some (map g xs)"
  using assms by (induction xs) simp_all

lemma elemAt_Some: "i < length xs \<Longrightarrow> elemAt xs i = Some (xs ! i)"
  by (simp add: elemAt_def)

lemma dropClosing_tail:
  assumes "points \<noteq> []" "i + length ps = n0"
  shows "dropClosing points n0 i ps =
     Some (if ps \<noteq> [] \<and> almostEqualPoint (last ps) (hd points) then butlast ps else ps)"
  using assms(2)
proof (induction ps arbitrary: i)
  case Nil
  then show ?case by simp
next
  case (Cons p ps)
  have first: "elemAt points 0 = Some (hd points)"
    using assms(1) by (cases points) (simp_all add: elemAt_def)
  show ?case
  proof (cases "ps = []")
    case True
    with Cons.prems have "i = n0 - 1" by simp
    with True first show ?thesis by simp
  next
    case False
    with Cons.prems have ne: "i \<noteq> n0 - 1" by (cases ps) auto
    from Cons.prems have "(i + 1) + length ps = n0" by simp
    from Cons.IH [OF this] ne False show ?thesis by simp
  qed
qed

lemma dropClosing_normalizeInput:
  "points \<noteq> [] \<Longrightarrow> dropClosing points (length points) 0 points = Some (normalizeInput points)"
  using dropClosing_tail [of points 0 points "length points"] by (simp add: normalizeInput_def)

lemma succ_mod_less: "i < n \<Longrightarrow> (i + 1) mod n < (n::nat)"
  by (rule mod_less_divisor) simp

lemma pred_mod_less: "i < n \<Longrightarrow> (i + n - 1) mod n < (n::nat)"
  by (rule mod_less_divisor) simp

lemma areaTerm_Some:
  assumes "i < length poly"
  shows "areaTerm poly (length poly) i =
     Some (X (poly ! i) * Y (poly ! ((i + 1) mod length poly))
           - X (poly ! ((i + 1) mod length poly)) * Y (poly ! i))"
  using assms succ_mod_less [OF assms] by (simp add: areaTerm_def elemAt_def)

lemma signedArea_Some: "\<exists>a. signedArea poly = Some a"
proof -
  let ?g = "\<lambda>i. X (poly ! i) * Y (poly ! ((i + 1) mod length poly))
           - X (poly ! ((i + 1) mod length poly)) * Y (poly ! i)"
  have "those (map (areaTerm poly (length poly)) [0..<length poly]) = Some (map ?g [0..<length poly])"
    by (rule those_map_Some) (simp add: areaTerm_Some)
  then have "signedArea poly = Some (foldl (+) 0 (map ?g [0..<length poly]) * 0.5)"
    by (simp add: signedArea_def)
  then show ?thesis by blast
qed

lemma offsetEdge_Some:
  assumes "j < length poly"
  shows "offsetEdge poly (length poly) area mode j = Some (polyDir poly j, polyNormal poly area mode j)"
  using assms succ_mod_less [OF assms]
  by (simp add: offsetEdge_def elemAt_def polyDir_def polyNormal_def)

lemma edges_Some:
  "those (map (offsetEdge poly (length poly) area mode) [0..<length poly]) =
     Some (map (\<lambda>j. (polyDir poly j, polyNormal poly area mode j)) [0..<length poly])"
  by (rule those_map_Some) (simp add: offsetEdge_Some)

lemma offsetVertex_Some:
  assumes "i < length poly"
  shows "offsetVertex poly (map (polyDir poly) [0..<length poly])
            (map (polyNormal poly area mode) [0..<length poly]) (length poly) delta i
         = Some (polyVertex poly area mode delta i)"
  using assms pred_mod_less [OF assms]
  by (simp add: offsetVertex_def elemAt_def polyVertex_def Let_def)

lemma vertices_Some:
  "those (map (offsetVertex poly (map (polyDir poly) [0..<length poly])
            (map (polyNormal poly area mode) [0..<length poly]) (length poly) delta) [0..<length poly])
   = Some (map (polyVertex poly area mode delta) [0..<length poly])"
  by (rule those_map_Some) (simp add: offsetVertex_Some)

lemma dropClosing_length:
  "dropClosing points n0 i ps = Some poly \<Longrightarrow> length poly \<le> length ps"
  by (induction ps arbitrary: i poly) (auto split: if_splits bind_splits)

lemma offsetPolygon_offsetting:
  assumes "offsetting points delta poly area"
  shows "offsetPolygon points delta mode =
     Some (map (polyVertex poly area mode delta) [0..<length poly] @ [polyVertex poly area mode delta 0])"
proof -
  from assms have d: "delta \<noteq> 0"
    and p: "dropClosing points (length points) 0 points = Some poly"
    and n: "3 \<le> length poly" and a: "signedArea poly = Some area" and e: "epsilon \<le> \<bar>area\<bar>"
    by (simp_all add: offsetting_def)
  from dropClosing_length [OF p] n have l: "\<not> length points < 3" by simp
  have z: "elemAt (map (polyVertex poly area mode delta) [0..<length poly]) 0
      = Some (polyVertex poly area mode delta 0)"
    using n by (auto simp add: elemAt_def)
  have pos: "poly \<noteq> []" using n by auto
  show ?thesis
    using d l n e pos
    by (simp add: offsetPolygon_def p a Let_def edges_Some comp_def vertices_Some z)
qed


lemma upt5: "[0..<5] = [0, 1, 2, 3, 4]"
  by (simp add: upt_rec)

lemma pentagon_offsetting: "offsetting closedPentagon 1 pentagon 4"
proof -
  have "dropClosing closedPentagon (length closedPentagon) 0 closedPentagon = Some pentagon"
    by (subst dropClosing_normalizeInput)
       (simp_all add: closedPentagon_def pentagon_def normalizeInput_def almostEqualPoint_def
          epsilon_def pt_def)
  moreover have "signedArea pentagon = Some 4"
    by (simp add: signedArea_def pentagon_def upt5 areaTerm_def elemAt_def pt_def)
  moreover have "length pentagon = 5" by (simp add: pentagon_def)
  ultimately show ?thesis by (simp add: offsetting_def epsilon_def)
qed

text \<open>
  Claim C6. On every input \<open>offsetPolygon\<close> returns a polyline (no index is out of
  range). On every input that passes the three early returns (nonzero delta, at least
  three points left after the closing-point loop, absolute signed area at least
  \<open>epsilon\<close>) the returned polyline has at least two points and its last point is its
  first point.
\<close>

theorem offsetPolygon_total_and_closed:
  "(\<exists>r. offsetPolygon points delta mode = Some r)
   \<and> (offsetting points delta poly area \<longrightarrow>
        (\<exists>r. offsetPolygon points delta mode = Some r \<and> 2 \<le> length r \<and> last r = hd r))"
proof
  show "\<exists>r. offsetPolygon points delta mode = Some r"
  proof (cases "delta = 0 \<or> length points < 3")
    case True
    then show ?thesis by (simp add: offsetPolygon_def)
  next
    case False
    then have ne: "points \<noteq> []" by auto
    let ?poly = "normalizeInput points"
    have p: "dropClosing points (length points) 0 points = Some ?poly"
      by (rule dropClosing_normalizeInput [OF ne])
    obtain a where a: "signedArea ?poly = Some a" using signedArea_Some by blast
    show ?thesis
    proof (cases "length ?poly < 3 \<or> \<bar>a\<bar> < epsilon")
      case True
      with False show ?thesis by (auto simp add: offsetPolygon_def p a Let_def)
    next
      case nd: False
      with False p a have "offsetting points delta ?poly a" by (simp add: offsetting_def)
      from offsetPolygon_offsetting [OF this] show ?thesis by blast
    qed
  qed
  show "offsetting points delta poly area \<longrightarrow>
        (\<exists>r. offsetPolygon points delta mode = Some r \<and> 2 \<le> length r \<and> last r = hd r)"
  proof
    assume o: "offsetting points delta poly area"
    then have n: "3 \<le> length poly" by (simp add: offsetting_def)
    let ?vs = "map (polyVertex poly area mode delta) [0..<length poly]"
    have h: "hd (?vs @ [polyVertex poly area mode delta 0]) = polyVertex poly area mode delta 0"
      using n by (simp add: hd_append hd_map upt_conv_Cons)
    have "offsetPolygon points delta mode = Some (?vs @ [polyVertex poly area mode delta 0])"
      by (rule offsetPolygon_offsetting [OF o])
    moreover have "2 \<le> length (?vs @ [polyVertex poly area mode delta 0])" using n by simp
    moreover have "last (?vs @ [polyVertex poly area mode delta 0])
        = hd (?vs @ [polyVertex poly area mode delta 0])" using h by simp
    ultimately show "\<exists>r. offsetPolygon points delta mode = Some r \<and> 2 \<le> length r \<and> last r = hd r"
      by blast
  qed
qed

theorem offsetPolygon_total_and_closed_witness:
  "(\<exists>r. offsetPolygon closedPentagon 1 ''outside'' = Some r)
   \<and> offsetting closedPentagon 1 pentagon 4
   \<and> (\<exists>r. offsetPolygon closedPentagon 1 ''outside'' = Some r \<and> 2 \<le> length r \<and> last r = hd r)"
  using offsetPolygon_total_and_closed [of closedPentagon 1 "''outside''" pentagon 4]
    pentagon_offsetting
  by simp

text \<open>
  Claim C10. On every input that passes the three early returns, with \<open>n\<close> points left
  after the closing-point loop, the result has exactly \<open>n + 1\<close> points: the offset vertex
  of each polygon vertex, in the polygon's order, and the first of them once more at the
  end.
\<close>

theorem offsetPolygon_vertex_count:
  assumes "offsetting points delta poly area"
  shows "\<exists>r. offsetPolygon points delta mode = Some r
           \<and> length r = length poly + 1
           \<and> (\<forall>i<length poly. r ! i = polyVertex poly area mode delta i)
           \<and> r ! length poly = r ! 0"
proof -
  from assms have n: "3 \<le> length poly" by (simp add: offsetting_def)
  let ?vs = "map (polyVertex poly area mode delta) [0..<length poly]"
  let ?r = "?vs @ [polyVertex poly area mode delta 0]"
  have "offsetPolygon points delta mode = Some ?r"
    by (rule offsetPolygon_offsetting [OF assms])
  moreover have "length ?r = length poly + 1" by simp
  moreover have "\<forall>i<length poly. ?r ! i = polyVertex poly area mode delta i"
    by (simp add: nth_append)
  moreover have "?r ! length poly = ?r ! 0"
    using n by (simp add: nth_append)
  ultimately show ?thesis by blast
qed

theorem offsetPolygon_vertex_count_witness:
  "offsetting closedPentagon 1 pentagon 4
   \<and> (\<exists>r. offsetPolygon closedPentagon 1 ''outside'' = Some r
           \<and> length r = length pentagon + 1
           \<and> (\<forall>i<length pentagon. r ! i = polyVertex pentagon 4 ''outside'' 1 i)
           \<and> r ! length pentagon = r ! 0)"
  using offsetPolygon_vertex_count [OF pentagon_offsetting, of "''outside''"] pentagon_offsetting
  by simp

text \<open>
  Claim C7. On every input that passes the three early returns, at every vertex whose two
  adjacent edge directions have a cross product of absolute value below \<open>epsilon\<close>, the
  vertex of the result is the start point of the second edge's offset line: the vertex
  itself moved by \<open>delta\<close> along the normal chosen for the edge that leaves it.
\<close>

theorem offsetPolygon_parallel_fallback:
  assumes "offsetting points delta poly area"
    and "i < length poly"
    and "\<bar>cross (polyDir poly ((i + length poly - 1) mod length poly)) (polyDir poly i)\<bar> < epsilon"
  shows "\<exists>r. offsetPolygon points delta mode = Some r
           \<and> r ! i = translate (poly ! i) (polyNormal poly area mode i) delta"
proof -
  let ?vs = "map (polyVertex poly area mode delta) [0..<length poly]"
  let ?r = "?vs @ [polyVertex poly area mode delta 0]"
  have "offsetPolygon points delta mode = Some ?r"
    by (rule offsetPolygon_offsetting [OF assms(1)])
  moreover have "?r ! i = polyVertex poly area mode delta i"
    using assms(2) by (simp add: nth_append)
  moreover have "polyVertex poly area mode delta i
      = translate (poly ! i) (polyNormal poly area mode i) delta"
    using assms(3) by (simp add: polyVertex_def joinVertex_def Let_def)
  ultimately show ?thesis by simp
qed

lemma pentagon_parallel:
  "cross (polyDir pentagon ((1 + length pentagon - 1) mod length pentagon)) (polyDir pentagon 1) = 0"
  by (simp add: pentagon_def polyDir_def edgeDir_def cross_def pt_def)

lemma pentagon_fallback_vertex:
  "translate (pentagon ! 1) (polyNormal pentagon 4 ''outside'' 1) 1 = pt 1 (- 1)"
  by (simp add: pentagon_def polyNormal_def edgeNormal_def translate_def Hypot_def pt_def Let_def)

theorem offsetPolygon_parallel_fallback_witness:
  "offsetting closedPentagon 1 pentagon 4 \<and> (1::nat) < length pentagon
   \<and> \<bar>cross (polyDir pentagon ((1 + length pentagon - 1) mod length pentagon)) (polyDir pentagon 1)\<bar>
       < epsilon
   \<and> (\<exists>r. offsetPolygon closedPentagon 1 ''outside'' = Some r \<and> r ! 1 = pt 1 (- 1))"
proof -
  have l: "(1::nat) < length pentagon" by (simp add: pentagon_def)
  have c: "\<bar>cross (polyDir pentagon ((1 + length pentagon - 1) mod length pentagon))
              (polyDir pentagon 1)\<bar> < epsilon"
    unfolding pentagon_parallel by (simp add: epsilon_def)
  have "\<exists>r. offsetPolygon closedPentagon 1 ''outside'' = Some r \<and> r ! 1 = pt 1 (- 1)"
    using offsetPolygon_parallel_fallback [OF pentagon_offsetting l c, of "''outside''"]
    unfolding pentagon_fallback_vertex .
  with pentagon_offsetting l c show ?thesis by blast
qed

section \<open>offsetPolygon: the early return before normalization\<close>

text \<open>
  Claim C4, as stated, fails. With delta 0 the closed triangle comes back with its
  closing point: four points, against the three of the normalized input.
\<close>

theorem offsetPolygon_zero_delta_counterexample:
  "offsetPolygon closedTriangle 0 ''inside'' = Some closedTriangle
   \<and> normalizeInput closedTriangle = [pt 0 0, pt 1 0, pt 1 1]
   \<and> \<not> list_all2 almostEqualPoint closedTriangle (normalizeInput closedTriangle)"
proof -
  have n: "normalizeInput closedTriangle = [pt 0 0, pt 1 0, pt 1 1]"
    by (simp add: normalizeInput_def closedTriangle_def almostEqualPoint_def epsilon_def pt_def)
  have "offsetPolygon closedTriangle 0 ''inside'' = Some closedTriangle"
    by (simp add: offsetPolygon_def)
  moreover have "\<not> list_all2 almostEqualPoint closedTriangle (normalizeInput closedTriangle)"
    unfolding n by (simp add: closedTriangle_def)
  ultimately show ?thesis using n by simp
qed

text \<open>
  Claim C4, amended. For every point list and every mode: with delta 0, or with fewer
  than three input points, \<open>offsetPolygon\<close> returns the input list itself, unchanged, a
  duplicated closing point included.
\<close>

theorem offsetPolygon_nothing_to_do:
  assumes "delta = 0 \<or> length points < 3"
  shows "offsetPolygon points delta mode = Some points"
  using assms by (simp add: offsetPolygon_def)

theorem offsetPolygon_nothing_to_do_witness:
  "((0::real) = 0 \<or> length closedTriangle < 3)
   \<and> offsetPolygon closedTriangle 0 ''inside'' = Some closedTriangle
   \<and> ((1::real) = 0 \<or> length [pt 0 0, pt 1 0] < 3)
   \<and> offsetPolygon [pt 0 0, pt 1 0] 1 ''outside'' = Some [pt 0 0, pt 1 0]"
  using offsetPolygon_nothing_to_do [of 0 closedTriangle "''inside''"]
    offsetPolygon_nothing_to_do [of 1 "[pt 0 0, pt 1 0]" "''outside''"]
  by simp

end
